theory Spec2Isabelle
  imports Main
begin

section \<open>Material export: cache keys, output-node lookup, sync and sync\_update\<close>

text \<open>
  A shallow embedding of \<^verbatim>\<open>rprblender/export/material.py\<close>. Python exceptions are
  values of \<open>py_error\<close> on the left of a sum; the renderer context is passed in and
  returned explicitly.
\<close>

subsection \<open>Data\<close>

datatype py_error = AttributeError | KeyError | IndexError

text \<open>
  The Python values that occur as material identities and cache keys: strings and
  tuples. Python compares tuples component by component and never finds a string
  equal to a tuple, which is the equality of this datatype.
\<close>

datatype pyval = Str string | Tuple "pyval list"

text \<open>
  The host's node graph, as far as the module reads it: a node has a type tag
  \<open>bl_idname\<close>, the flag \<open>is_active_output\<close> and a collection of input sockets
  looked up by name; a socket has the flag \<open>is_linked\<close> and its \<open>links\<close>; a link
  has the flag \<open>is_valid\<close> and its producing node \<open>from_node\<close>.
\<close>

datatype node = Node (bl_idname: string) (is_active_output: bool) (inputs: "(string \<times> socket) list")
  and socket = Socket (is_linked: bool) (links: "link list")
  and link = Link (is_valid: bool) (from_node: node)

record node_tree =
  nodes :: "node list"

text \<open>\<open>node_tree\<close> is \<open>None\<close> for a material without a node tree.\<close>

record material =
  name :: string
  node_tree :: "node_tree option"

text \<open>
  The values passed as \<^verbatim>\<open>obj\<close>. The parameter is declared \<^verbatim>\<open>obj: bpy.types.Object\<close>
  and defaults to \<^verbatim>\<open>None\<close>, hence \<open>pyobject option\<close>. An object of the scene is a
  \<open>MeshObject\<close>, when its data is a mesh, with the ordered names of the UV sets of
  that mesh (\<^verbatim>\<open>obj.data.rpr.uv_sets_names\<close>), or a \<open>NonMesh\<close>; the first field names
  the object, so that two objects with the same UV sets are still two objects.
  Both are instances of \<^verbatim>\<open>bpy.types.Object\<close> and not of \<^verbatim>\<open>bpy.types.Mesh\<close>. The mesh
  datablock itself, \<open>MeshData\<close>, is the only instance of \<^verbatim>\<open>bpy.types.Mesh\<close>; it has
  no attribute \<^verbatim>\<open>data\<close>.
\<close>

datatype pyobject = MeshObject string "string list" | NonMesh string | MeshData string

text \<open>What the signature declares: no object, or an object of the scene.\<close>

fun is_object :: "pyobject option \<Rightarrow> bool" where
  "is_object None = True"
| "is_object (Some (MeshObject _ _)) = True"
| "is_object (Some (NonMesh _)) = True"
| "is_object (Some (MeshData _)) = False"

text \<open>
  A compiled material handle is a reference to a renderer object. As a Python object
  it counts as true in a condition; the only result that does not is \<^verbatim>\<open>None\<close>, the
  \<open>None\<close> of \<open>handle option\<close>.
\<close>

datatype handle = Handle nat

text \<open>
  The renderer context, as far as this module touches it: the registry \<open>materials\<close>
  (a Python dict from cache keys to handles), the number of renderer material
  objects allocated so far (the next one gets this number), and a ghost trace
  \<open>export_log\<close> with one entry (material key, socket name) for every run of
  \<^verbatim>\<open>final_export\<close>.
\<close>

record rpr_context =
  materials :: "pyval \<rightharpoonup> handle"
  next_handle :: nat
  export_log :: "(pyval \<times> string) list"

subsection \<open>The cache key\<close>

definition key :: "pyval \<Rightarrow> string \<Rightarrow> pyval" where
  "key material input_socket_key =
     (if input_socket_key = ''Surface'' then material
      else Tuple [material, Str input_socket_key])"

subsection \<open>Looking into the node tree\<close>

definition get_material_output_node :: "material \<Rightarrow> node option" where
  "get_material_output_node material =
     (case node_tree material of
        None \<Rightarrow> None
      | Some tree \<Rightarrow>
          find (\<lambda>node. bl_idname node = ''ShaderNodeOutputMaterial'' \<and> is_active_output node)
            (nodes tree))"

text \<open>
  \<^verbatim>\<open>get_material_nodes_by_type\<close> reads \<^verbatim>\<open>material.node_tree.nodes\<close> with no test for
  \<^verbatim>\<open>None\<close>: on a material without a node tree the attribute access raises
  \<^verbatim>\<open>AttributeError\<close>.
\<close>

definition get_material_nodes_by_type :: "material \<Rightarrow> string \<Rightarrow> py_error + node list" where
  "get_material_nodes_by_type material idname =
     (case node_tree material of
        None \<Rightarrow> Inl AttributeError
      | Some tree \<Rightarrow> Inr (filter (\<lambda>node. bl_idname node = idname) (nodes tree)))"

definition has_uv_map_node :: "material \<Rightarrow> py_error + bool" where
  "has_uv_map_node material =
     (case get_material_nodes_by_type material ''ShaderNodeUVMap'' of
        Inl e \<Rightarrow> Inl e
      | Inr found \<Rightarrow> Inr (case found of [] \<Rightarrow> False | uv_map_node # _ \<Rightarrow> True))"

text \<open>
  \<^verbatim>\<open>output_node.inputs[input_socket_key]\<close> raises \<^verbatim>\<open>KeyError\<close> when the collection
  has no socket of that name, and \<^verbatim>\<open>socket_in.links[0]\<close> raises \<^verbatim>\<open>IndexError\<close> on an
  empty collection; the latter is only evaluated when \<^verbatim>\<open>is_linked\<close> holds.
\<close>

definition get_material_input_node :: "material \<Rightarrow> string \<Rightarrow> py_error + node option" where
  "get_material_input_node material input_socket_key =
     (case get_material_output_node material of
        None \<Rightarrow> Inr None
      | Some output_node \<Rightarrow>
          (case map_of (inputs output_node) input_socket_key of
             None \<Rightarrow> Inl KeyError
           | Some socket_in \<Rightarrow>
               if \<not> is_linked socket_in then Inr None
               else (case links socket_in of
                       [] \<Rightarrow> Inl IndexError
                     | l # _ \<Rightarrow> if \<not> is_valid l then Inr None else Inr (Some (from_node l)))))"

subsection \<open>The renderer context and the graph compiler\<close>

text \<open>
  Modelled from the spec: \<^verbatim>\<open>RPRContext.set_material_node_as_material\<close> and
  \<^verbatim>\<open>RPRContext.remove_material\<close> (\<^verbatim>\<open>rprblender/engine/context.py\<close> is not among the
  sources). The registry is a map from cache key to handle with the operations
  membership test, get, set and remove; insertion overwrites.
\<close>

definition set_material_node_as_material :: "rpr_context \<Rightarrow> pyval \<Rightarrow> handle \<Rightarrow> rpr_context" where
  "set_material_node_as_material rpr_context mat_key rpr_material =
     rpr_context\<lparr>materials := (materials rpr_context)(mat_key \<mapsto> rpr_material)\<rparr>"

definition remove_material :: "rpr_context \<Rightarrow> pyval \<Rightarrow> rpr_context" where
  "remove_material rpr_context mat_key =
     rpr_context\<lparr>materials := (materials rpr_context)(mat_key := None)\<rparr>"

text \<open>
  Modelled from the spec: the socket resolver of the graph compiler
  (\<^verbatim>\<open>rprblender/nodes\<close> is not among the sources). It returns null if the named socket
  does not exist, the socket is unlinked, or its single link is marked invalid, and
  the producing node otherwise.
\<close>

definition resolve_input :: "node \<Rightarrow> string \<Rightarrow> node option" where
  "resolve_input output_node socket_name =
     (case map_of (inputs output_node) socket_name of
        None \<Rightarrow> None
      | Some s \<Rightarrow>
          if \<not> is_linked s then None
          else (case links s of
                  [] \<Rightarrow> None
                | l # _ \<Rightarrow> if is_valid l then Some (from_node l) else None))"

text \<open>
  Modelled from the spec: \<^verbatim>\<open>ShaderNodeOutputMaterial.final_export\<close>
  (\<^verbatim>\<open>rprblender/nodes/blender_nodes.py\<close> is not among the sources). The parser is
  built on an output node that has been located already; the export resolves the
  root socket and returns null if that is unresolved; otherwise it compiles the
  graph from the root and assembles a new renderer material, whose handle it
  returns. It never raises, and it does not touch the registry: only the caller
  registers the result. Every run is recorded in the ghost trace.
\<close>

definition final_export ::
    "rpr_context \<Rightarrow> node \<Rightarrow> pyval \<Rightarrow> string \<Rightarrow> handle option \<times> rpr_context" where
  "final_export rpr_context output_node material_key input_socket_key =
     (let ctx = rpr_context\<lparr>export_log :=
                  export_log rpr_context @ [(material_key, input_socket_key)]\<rparr>
      in case resolve_input output_node input_socket_key of
           None \<Rightarrow> (None, ctx)
         | Some root \<Rightarrow>
             (Some (Handle (next_handle ctx)), ctx\<lparr>next_handle := Suc (next_handle ctx)\<rparr>))"

subsection \<open>sync and sync\_update\<close>

text \<open>
  The material identity that both \<^verbatim>\<open>sync\<close> and \<^verbatim>\<open>sync_update\<close> pass to \<open>key\<close>:
  the same conditional opens both functions (lines 61 to 65 and 90 to 94).
  \<^verbatim>\<open>isinstance(obj, bpy.types.Mesh)\<close> is tested first and holds for a mesh datablock
  only, so \<open>has_uv_map_node\<close> runs (and may raise) for a datablock only. When it
  finds a UV-Map node, the branch builds the pair of \<^verbatim>\<open>material.name\<close> and
  \<^verbatim>\<open>obj.data.rpr.uv_sets_names\<close>, and \<^verbatim>\<open>obj.data\<close> raises \<^verbatim>\<open>AttributeError\<close> on a
  datablock. For \<^verbatim>\<open>None\<close> and for every object of the scene, a mesh object too, the
  test fails and the identity is the bare name.
\<close>

definition material_identity :: "material \<Rightarrow> pyobject option \<Rightarrow> py_error + pyval" where
  "material_identity material obj =
     (case obj of
        Some (MeshData _) \<Rightarrow>
          (case has_uv_map_node material of
             Inl e \<Rightarrow> Inl e
           | Inr has_uv \<Rightarrow>
               if has_uv then Inl AttributeError
               else Inr (Str (name material)))
      | _ \<Rightarrow> Inr (Str (name material)))"

definition sync ::
    "rpr_context \<Rightarrow> material \<Rightarrow> string \<Rightarrow> pyobject option
      \<Rightarrow> py_error + (handle option \<times> rpr_context)" where
  "sync rpr_context material input_socket_key obj =
     (case material_identity material obj of
        Inl e \<Rightarrow> Inl e
      | Inr ident \<Rightarrow>
          (let mat_key = key ident input_socket_key in
           case materials rpr_context mat_key of
             Some rpr_material \<Rightarrow> Inr (Some rpr_material, rpr_context)
           | None \<Rightarrow>
               (case get_material_output_node material of
                  None \<Rightarrow> Inr (None, rpr_context)
                | Some output_node \<Rightarrow>
                    (case final_export rpr_context output_node mat_key input_socket_key of
                       (Some rpr_material, ctx) \<Rightarrow>
                         Inr (Some rpr_material,
                              set_material_node_as_material ctx mat_key rpr_material)
                     | (None, ctx) \<Rightarrow> Inr (None, ctx)))))"

text \<open>
  In \<^verbatim>\<open>sync_update\<close> the first \<^verbatim>\<open>sync\<close> is called with \<^verbatim>\<open>obj=obj\<close>, the second one,
  for the socket \<^verbatim>\<open>'Displacement'\<close>, without \<^verbatim>\<open>obj\<close>, that is with \<^verbatim>\<open>None\<close>.
\<close>

definition sync_update ::
    "rpr_context \<Rightarrow> material \<Rightarrow> pyobject option \<Rightarrow> py_error + (bool \<times> rpr_context)" where
  "sync_update rpr_context material obj =
     (case material_identity material obj of
        Inl e \<Rightarrow> Inl e
      | Inr ident \<Rightarrow>
          (let mat_key = key ident ''Surface'';
               ctx1 = (if materials rpr_context mat_key \<noteq> None
                       then remove_material rpr_context mat_key else rpr_context)
           in case sync ctx1 material ''Surface'' obj of
                Inl e \<Rightarrow> Inl e
              | Inr (_, ctx2) \<Rightarrow>
                  (let displacement_key = key mat_key ''Displacement'';
                       ctx3 = (if materials ctx2 displacement_key \<noteq> None
                               then remove_material ctx2 displacement_key else ctx2)
                   in case sync ctx3 material ''Displacement'' None of
                        Inl e \<Rightarrow> Inl e
                      | Inr (_, ctx4) \<Rightarrow> Inr (True, ctx4))))"

text \<open>
  The registry holds allocated renderer objects only: every handle in it has a
  number below the next one to be given out.
\<close>

definition handles_allocated :: "rpr_context \<Rightarrow> bool" where
  "handles_allocated ctx \<longleftrightarrow>
     (\<forall>k n. materials ctx k = Some (Handle n) \<longrightarrow> n < next_handle ctx)"

text \<open>
  The intended domain of material identities: a bare name, or a pair of a name and
  a tuple of UV-set names.
\<close>

fun is_str :: "pyval \<Rightarrow> bool" where
  "is_str (Str _) = True"
| "is_str (Tuple _) = False"

fun is_material_identity :: "pyval \<Rightarrow> bool" where
  "is_material_identity (Str _) = True"
| "is_material_identity (Tuple [Str _, Tuple uvs]) = list_all is_str uvs"
| "is_material_identity _ = False"

subsection \<open>Example scenes\<close>

text \<open>
  A context with an empty registry; the material \<open>Glass\<close>, whose active output has
  \<open>Surface\<close> linked to a glass shader and \<open>Displacement\<close> unlinked; two variants of
  it, one with no active output and one whose \<open>Surface\<close> link is invalid; the
  material \<open>Wood\<close>, which contains a UV-Map node and has both \<open>Surface\<close> and
  \<open>Displacement\<close> linked; and a material without a node tree.
\<close>

definition empty_context :: rpr_context where
  "empty_context = \<lparr>materials = Map.empty, next_handle = 0, export_log = []\<rparr>"

definition glass_bsdf :: node where
  "glass_bsdf = Node ''ShaderNodeBsdfGlass'' False []"

definition glass_output :: node where
  "glass_output = Node ''ShaderNodeOutputMaterial'' True
     [(''Surface'', Socket True [Link True glass_bsdf]),
      (''Volume'', Socket False []),
      (''Displacement'', Socket False [])]"

definition glass :: material where
  "glass = \<lparr>name = ''Glass'', node_tree = Some \<lparr>nodes = [glass_bsdf, glass_output]\<rparr>\<rparr>"

definition glass_no_output :: material where
  "glass_no_output = \<lparr>name = ''Glass'', node_tree = Some \<lparr>nodes =
     [glass_bsdf,
      Node ''ShaderNodeOutputMaterial'' False
        [(''Surface'', Socket True [Link True glass_bsdf]),
         (''Volume'', Socket False []),
         (''Displacement'', Socket False [])]]\<rparr>\<rparr>"

definition invalid_output :: node where
  "invalid_output = Node ''ShaderNodeOutputMaterial'' True
     [(''Surface'', Socket True [Link False glass_bsdf]),
      (''Volume'', Socket False []),
      (''Displacement'', Socket False [])]"

definition glass_invalid_link :: material where
  "glass_invalid_link =
     \<lparr>name = ''Glass'', node_tree = Some \<lparr>nodes = [glass_bsdf, invalid_output]\<rparr>\<rparr>"

definition wood_tree :: node_tree where
  "wood_tree = \<lparr>nodes =
     [Node ''ShaderNodeUVMap'' False [],
      Node ''ShaderNodeOutputMaterial'' True
        [(''Surface'', Socket True [Link True (Node ''ShaderNodeBsdfDiffuse'' False [])]),
         (''Volume'', Socket False []),
         (''Displacement'',
            Socket True [Link True (Node ''ShaderNodeDisplacement'' False [])])]]\<rparr>"

definition wood :: material where
  "wood = \<lparr>name = ''Wood'', node_tree = Some wood_tree\<rparr>"

definition bare :: material where
  "bare = \<lparr>name = ''Bare'', node_tree = None\<rparr>"

text \<open>The context after \<open>Glass\<close> has been compiled once for \<open>Surface\<close>.\<close>

definition glass_context :: rpr_context where
  "glass_context = \<lparr>materials = [Str ''Glass'' \<mapsto> Handle 0], next_handle = 1,
     export_log = [(Str ''Glass'', ''Surface'')]\<rparr>"

text \<open>
  A context that holds a surface and a displacement for \<open>Wood\<close>, and the context
  after \<open>sync_update\<close> has replaced both.
\<close>

definition wood_context :: rpr_context where
  "wood_context = \<lparr>materials =
       [Str ''Wood'' \<mapsto> Handle 0,
        Tuple [Str ''Wood'', Str ''Displacement''] \<mapsto> Handle 1],
     next_handle = 2, export_log = []\<rparr>"

definition wood_updated_context :: rpr_context where
  "wood_updated_context = \<lparr>materials =
       [Str ''Wood'' \<mapsto> Handle 2,
        Tuple [Str ''Wood'', Str ''Displacement''] \<mapsto> Handle 3],
     next_handle = 4,
     export_log = [(Str ''Wood'', ''Surface''),
                   (Tuple [Str ''Wood'', Str ''Displacement''], ''Displacement'')]\<rparr>"

text \<open>The context after \<open>Wood\<close> has been compiled once for \<open>Surface\<close>.\<close>

definition wood_surface_context :: rpr_context where
  "wood_surface_context = \<lparr>materials = [Str ''Wood'' \<mapsto> Handle 0], next_handle = 1,
     export_log = [(Str ''Wood'', ''Surface'')]\<rparr>"

text \<open>The context after \<open>Glass\<close> and then \<open>Wood\<close> have been compiled for \<open>Surface\<close>.\<close>

definition glass_wood_context :: rpr_context where
  "glass_wood_context = \<lparr>materials =
       [Str ''Glass'' \<mapsto> Handle 0, Str ''Wood'' \<mapsto> Handle 1],
     next_handle = 2,
     export_log = [(Str ''Glass'', ''Surface''), (Str ''Wood'', ''Surface'')]\<rparr>"

lemmas unfold_model = sync_def sync_update_def material_identity_def has_uv_map_node_def
  get_material_nodes_by_type_def get_material_output_node_def get_material_input_node_def
  final_export_def resolve_input_def key_def set_material_node_as_material_def
  remove_material_def Let_def

lemmas unfold_examples = empty_context_def glass_bsdf_def glass_output_def glass_def
  glass_no_output_def invalid_output_def glass_invalid_link_def wood_tree_def wood_def
  bare_def glass_context_def wood_context_def wood_updated_context_def
  wood_surface_context_def glass_wood_context_def

section \<open>Properties of the cache key\<close>

text \<open>
  C3. For every material identity, the key for the socket \<open>Surface\<close> is the identity
  itself, with no tuple around it; for every other socket name the key is the pair
  of the identity and the socket name; in particular the key for \<open>Displacement\<close> is
  the pair of the identity and \<open>Displacement\<close>.
\<close>

theorem key_degeneracy:
  "key M ''Surface'' = M
   \<and> (s \<noteq> ''Surface'' \<longrightarrow> key M s = Tuple [M, Str s])
   \<and> key M ''Displacement'' = Tuple [M, Str ''Displacement'']"
  by (simp add: key_def)

theorem key_degeneracy_witness:
  "key (Tuple [Str ''Wood'', Tuple [Str ''UVMap'']]) ''Surface''
     = Tuple [Str ''Wood'', Tuple [Str ''UVMap'']]
   \<and> ''Volume'' \<noteq> ''Surface''
   \<and> key (Tuple [Str ''Wood'', Tuple [Str ''UVMap'']]) ''Volume''
     = Tuple [Tuple [Str ''Wood'', Tuple [Str ''UVMap'']], Str ''Volume'']"
  using key_degeneracy [of "Tuple [Str ''Wood'', Tuple [Str ''UVMap'']]" "''Volume''"]
  by simp

text \<open>
  C9. On the intended domain the key is injective: if two material identities, each
  a bare name or a pair of a name and a tuple of UV-set names, and two socket names
  give the same key, then the identities are equal and the socket names are equal.
  In particular the \<open>Surface\<close> key of one identity, which is the identity itself,
  is never the composite key of another identity for a socket other than \<open>Surface\<close>.
\<close>

theorem key_injective:
  assumes "is_material_identity M1" and "is_material_identity M2"
  shows "(key M1 s1 = key M2 s2 \<longrightarrow> M1 = M2 \<and> s1 = s2)
         \<and> (s2 \<noteq> ''Surface'' \<longrightarrow> key M1 ''Surface'' \<noteq> key M2 s2)"
proof -
  have surface: "M \<noteq> Tuple [M', Str s]" if "is_material_identity M" for M M' s
    using that by (cases M rule: is_material_identity.cases) auto
  show ?thesis
    using surface [OF assms(1)] surface [OF assms(2)]
    by (auto simp add: key_def)
qed

text \<open>
  The identity of \<open>Wood\<close> on a mesh whose only UV set is called \<open>Displacement\<close>
  and the bare name \<open>Wood\<close>: the \<open>Surface\<close> key of the first and the
  \<open>Displacement\<close> key of the second differ, a tuple against a string in the
  second component.
\<close>

theorem key_injective_witness:
  "is_material_identity (Tuple [Str ''Wood'', Tuple [Str ''Displacement'']])
   \<and> is_material_identity (Str ''Wood'')
   \<and> ''Displacement'' \<noteq> ''Surface''
   \<and> key (Tuple [Str ''Wood'', Tuple [Str ''Displacement'']]) ''Surface''
       \<noteq> key (Str ''Wood'') ''Displacement''"
proof -
  have h1: "is_material_identity (Tuple [Str ''Wood'', Tuple [Str ''Displacement'']])"
    by simp
  have h2: "is_material_identity (Str ''Wood'')"
    by simp
  show ?thesis
    using h1 h2 key_injective [OF h1 h2, of "''Surface''" "''Displacement''"] by simp
qed

section \<open>The effect of one sync call\<close>

subsection \<open>The export and the material identity\<close>

lemma final_export_materials:
  "materials (snd (final_export ctx out k s)) = materials ctx"
  by (simp add: final_export_def Let_def split: option.split)

lemma final_export_log:
  "export_log (snd (final_export ctx out k s)) = export_log ctx @ [(k, s)]"
  by (simp add: final_export_def Let_def split: option.split)

lemma final_export_handle:
  "fst (final_export ctx out k s) = Some h \<Longrightarrow> h = Handle (next_handle ctx)"
  by (auto simp add: final_export_def Let_def split: option.splits)

text \<open>
  The identity is never anything but the bare name, and it is derived for every
  object of the scene and for no object; only a mesh datablock can make the
  derivation raise.
\<close>

lemma material_identity_bare:
  "material_identity m obj = Inr ident \<Longrightarrow> ident = Str (name m)"
  by (auto simp add: material_identity_def split: option.splits pyobject.splits sum.splits
      if_splits)

lemma material_identity_object:
  "is_object obj \<Longrightarrow> material_identity m obj = Inr (Str (name m))"
  by (cases obj rule: is_object.cases) (simp_all add: material_identity_def)

lemma material_identity_Inl:
  "material_identity m obj = Inl e \<Longrightarrow> e = AttributeError \<and> \<not> is_object obj"
  by (cases obj rule: is_object.cases)
    (auto simp add: material_identity_def has_uv_map_node_def get_material_nodes_by_type_def
      split: option.splits sum.splits if_splits)

lemma get_material_output_node_None:
  "node_tree m = None
     \<or> (\<exists>t. node_tree m = Some t \<and> (\<forall>n\<in>set (nodes t). \<not> is_active_output n))
   \<Longrightarrow> get_material_output_node m = None"
  by (auto simp add: get_material_output_node_def find_None_iff)

subsection \<open>Hit and miss\<close>

lemma sync_Inl:
  "sync ctx m s obj = Inl e \<longleftrightarrow> material_identity m obj = Inl e"
  by (auto simp add: sync_def Let_def split: sum.splits option.splits prod.splits)

lemma sync_Inr_identity:
  "sync ctx m s obj = Inr p \<Longrightarrow> \<exists>ident. material_identity m obj = Inr ident"
  by (cases "material_identity m obj") (simp_all add: sync_def)

lemma sync_hit:
  "material_identity m obj = Inr ident \<Longrightarrow> materials ctx (key ident s) = Some h
   \<Longrightarrow> sync ctx m s obj = Inr (Some h, ctx)"
  by (simp add: sync_def)

lemma sync_miss:
  assumes "material_identity m obj = Inr ident" and "materials ctx (key ident s) = None"
  shows "\<exists>r ctx'. sync ctx m s obj = Inr (r, ctx')
           \<and> r = (case get_material_output_node m of
                    None \<Rightarrow> None
                  | Some out \<Rightarrow> fst (final_export ctx out (key ident s) s))
           \<and> materials ctx' = (materials ctx)(key ident s := r)
           \<and> export_log ctx' = export_log ctx @
                (case get_material_output_node m of
                   None \<Rightarrow> []
                 | Some out \<Rightarrow> [(key ident s, s)])"
proof (cases "get_material_output_node m")
  case None
  with assms show ?thesis by (simp add: sync_def fun_upd_idem)
next
  case (Some out)
  obtain r c where fe: "final_export ctx out (key ident s) s = (r, c)"
    by (cases "final_export ctx out (key ident s) s")
  have m: "materials c = materials ctx"
    using final_export_materials [of ctx out "key ident s" s] fe by simp
  have l: "export_log c = export_log ctx @ [(key ident s, s)]"
    using final_export_log [of ctx out "key ident s" s] fe by simp
  show ?thesis
  proof (cases r)
    case None
    with assms Some fe m l show ?thesis by (simp add: sync_def fun_upd_idem)
  next
    case (Some h)
    with assms \<open>get_material_output_node m = Some out\<close> fe m l show ?thesis
      by (simp add: sync_def set_material_node_as_material_def)
  qed
qed

lemma sync_registry:
  assumes "sync ctx m s obj = Inr (r, ctx')" and "material_identity m obj = Inr ident"
  shows "materials ctx' = (materials ctx)(key ident s := r)"
proof (cases "materials ctx (key ident s)")
  case None
  from sync_miss [OF assms(2) None] assms(1) show ?thesis by auto
next
  case (Some h)
  from sync_hit [OF assms(2) Some] assms(1) Some show ?thesis by (auto simp: fun_upd_idem)
qed

text \<open>
  C1. Whenever \<open>sync\<close> derives a key for the material, the socket name and the
  consuming object: if the key is in the registry, \<open>sync\<close> returns the stored handle
  and the context as it was, so nothing is compiled (the trace of exports is part
  of the context). On a miss it compiles, that is, it locates the output node and
  exports from it, and returns the result \<open>r\<close> of that; the registry afterwards is
  the old one with \<open>r\<close> at the key: the handle if \<open>r\<close> is one, and still nothing if
  \<open>r\<close> is null, in which case the registry is unchanged.
\<close>

theorem sync_cache_or_compile:
  assumes "material_identity m obj = Inr ident"
  shows "(materials ctx (key ident s) = Some h \<longrightarrow> sync ctx m s obj = Inr (Some h, ctx))
   \<and> (materials ctx (key ident s) = None \<longrightarrow>
        (\<exists>r ctx'. sync ctx m s obj = Inr (r, ctx')
           \<and> r = (case get_material_output_node m of
                    None \<Rightarrow> None
                  | Some out \<Rightarrow> fst (final_export ctx out (key ident s) s))
           \<and> materials ctx' = (materials ctx)(key ident s := r)
           \<and> (r = None \<longrightarrow> materials ctx' = materials ctx)))"
proof (intro conjI impI)
  assume "materials ctx (key ident s) = Some h"
  with assms show "sync ctx m s obj = Inr (Some h, ctx)" by (rule sync_hit)
next
  assume miss: "materials ctx (key ident s) = None"
  from sync_miss [OF assms miss] obtain r ctx' where
    a: "sync ctx m s obj = Inr (r, ctx')"
    and b: "r = (case get_material_output_node m of
            None \<Rightarrow> None
          | Some out \<Rightarrow> fst (final_export ctx out (key ident s) s))"
    and c: "materials ctx' = (materials ctx)(key ident s := r)"
    by blast
  from c miss have d: "r = None \<longrightarrow> materials ctx' = materials ctx"
    by (simp add: fun_upd_idem)
  from a b c d
  show "\<exists>r ctx'. sync ctx m s obj = Inr (r, ctx')
           \<and> r = (case get_material_output_node m of
                    None \<Rightarrow> None
                  | Some out \<Rightarrow> fst (final_export ctx out (key ident s) s))
           \<and> materials ctx' = (materials ctx)(key ident s := r)
           \<and> (r = None \<longrightarrow> materials ctx' = materials ctx)"
    by (intro exI [of _ r] exI [of _ ctx']) (intro conjI)
qed

text \<open>
  \<open>Glass\<close> on an empty registry: the \<open>Surface\<close> sync compiles and registers the
  handle under the bare name; the \<open>Displacement\<close> sync compiles to null and leaves
  the registry as it was. On the context that holds \<open>Glass\<close> already, the
  \<open>Surface\<close> sync returns the stored handle and the same context.
\<close>

theorem sync_cache_or_compile_witness:
  "material_identity glass None = Inr (Str ''Glass'')
   \<and> materials empty_context (key (Str ''Glass'') ''Surface'') = None
   \<and> (\<exists>ctx'. sync empty_context glass ''Surface'' None = Inr (Some (Handle 0), ctx')
         \<and> materials ctx' = (materials empty_context)(Str ''Glass'' \<mapsto> Handle 0))
   \<and> materials empty_context (key (Str ''Glass'') ''Displacement'') = None
   \<and> (\<exists>ctx'. sync empty_context glass ''Displacement'' None = Inr (None, ctx')
         \<and> materials ctx' = materials empty_context)
   \<and> materials glass_context (key (Str ''Glass'') ''Surface'') = Some (Handle 0)
   \<and> sync glass_context glass ''Surface'' None = Inr (Some (Handle 0), glass_context)"
proof -
  have i: "material_identity glass None = Inr (Str ''Glass'')"
    by (simp add: material_identity_def glass_def)
  have m1: "materials empty_context (key (Str ''Glass'') ''Surface'') = None"
    and m2: "materials empty_context (key (Str ''Glass'') ''Displacement'') = None"
    and m3: "materials glass_context (key (Str ''Glass'') ''Surface'') = Some (Handle 0)"
    by (simp_all add: empty_context_def glass_context_def key_def)
  have out: "get_material_output_node glass = Some glass_output"
    by (simp add: get_material_output_node_def glass_def glass_bsdf_def glass_output_def)
  have e1: "fst (final_export empty_context glass_output (Str ''Glass'') ''Surface'')
            = Some (Handle 0)"
    by (simp add: final_export_def resolve_input_def empty_context_def glass_output_def)
  have e2: "fst (final_export empty_context glass_output
                  (Tuple [Str ''Glass'', Str ''Displacement'']) ''Displacement'') = None"
    by (simp add: final_export_def resolve_input_def empty_context_def glass_output_def)
  show ?thesis
    using i m1 m2 m3
      sync_cache_or_compile [OF i, of empty_context "''Surface''"]
      sync_cache_or_compile [OF i, of empty_context "''Displacement''"]
      sync_cache_or_compile [OF i, of glass_context "''Surface''" "Handle 0"]
    by (simp add: out e1 e2 key_def fun_upd_idem)
qed

text \<open>
  C10. A sync call that returns changes the registry at no key but the one it
  derives from its own arguments, and there only if the key was absent before: it
  inserts, and never removes or overwrites. (A sync call that raises does so while
  deriving the key, before it touches the context.)
\<close>

theorem sync_frame:
  assumes "sync ctx m s obj = Inr (r, ctx')"
  shows "\<exists>ident. material_identity m obj = Inr ident
           \<and> (\<forall>k. materials ctx' k \<noteq> materials ctx k
                  \<longrightarrow> k = key ident s \<and> materials ctx k = None
                      \<and> materials ctx' k = r)"
proof -
  from assms obtain ident where i: "material_identity m obj = Inr ident"
    using sync_Inr_identity by blast
  have "\<forall>k. materials ctx' k \<noteq> materials ctx k
            \<longrightarrow> k = key ident s \<and> materials ctx k = None \<and> materials ctx' k = r"
  proof (cases "materials ctx (key ident s)")
    case None
    from sync_miss [OF i None] assms
    have "materials ctx' = (materials ctx)(key ident s := r)" by auto
    with None show ?thesis by auto
  next
    case (Some h)
    from sync_hit [OF i Some] assms have "ctx' = ctx" by simp
    then show ?thesis by simp
  qed
  with i show ?thesis by blast
qed

text \<open>
  \<open>Wood\<close> synced for a mesh object on the context that holds \<open>Glass\<close>: the entry
  of \<open>Glass\<close> stays, and the new entry is at the key of \<open>Wood\<close>, which was absent.
\<close>

theorem sync_frame_witness:
  "sync glass_context wood ''Surface'' (Some (MeshObject ''A'' [''UVMap'']))
     = Inr (Some (Handle 1), glass_wood_context)
   \<and> material_identity wood (Some (MeshObject ''A'' [''UVMap''])) = Inr (Str ''Wood'')
   \<and> materials glass_context (Str ''Wood'') = None
   \<and> materials glass_wood_context (Str ''Wood'') = Some (Handle 1)
   \<and> materials glass_wood_context (Str ''Glass'') = materials glass_context (Str ''Glass'')"
proof -
  have h: "sync glass_context wood ''Surface'' (Some (MeshObject ''A'' [''UVMap'']))
     = Inr (Some (Handle 1), glass_wood_context)"
    by (simp add: unfold_model unfold_examples)
  show ?thesis
    using h sync_frame [OF h]
    by (simp add: material_identity_def wood_def glass_context_def glass_wood_context_def)
qed

section \<open>Two sync calls in a row\<close>

text \<open>
  C7, as stated, fails: the triple (\<open>Glass\<close>, \<open>Surface\<close>, the lamp) is synced on the
  context in which \<open>Glass\<close> is registered already (the first line: it was compiled
  for a call with no object, which derives the same key). The first sync for the
  lamp returns the handle and the context as it was, so the second sync is the
  very same call; the trace of exports after the two calls is the trace before
  them. The export ran not once across the two calls but not at all.
\<close>

theorem sync_second_call_counterexample:
  "sync empty_context glass ''Surface'' None = Inr (Some (Handle 0), glass_context)
   \<and> sync glass_context glass ''Surface'' (Some (NonMesh ''Lamp''))
       = Inr (Some (Handle 0), glass_context)
   \<and> length (export_log glass_context) \<noteq> length (export_log glass_context) + 1"
  by (simp add: unfold_model unfold_examples)

text \<open>
  C7, amended. For every material, socket name and consuming object whose first
  sync returns a handle: a second sync with the same arguments on the context the
  first one returned gives the same handle and leaves that context as it is, so it
  is a pure registry lookup without an export; and the first call ran the export
  once if its key was absent from the registry before and not at all if the key was
  registered already. Across the two calls the export runs at most once, and
  exactly once precisely when the first call is a miss.
\<close>

theorem sync_second_call_is_lookup:
  assumes "sync ctx m s obj = Inr (Some h, ctx1)"
  shows "sync ctx1 m s obj = Inr (Some h, ctx1)
         \<and> (\<exists>ident. material_identity m obj = Inr ident
               \<and> export_log ctx1 = export_log ctx @
                   (if materials ctx (key ident s) = None then [(key ident s, s)] else []))"
proof -
  from assms obtain ident where i: "material_identity m obj = Inr ident"
    using sync_Inr_identity by blast
  have "materials ctx1 (key ident s) = Some h
        \<and> export_log ctx1 = export_log ctx @
            (if materials ctx (key ident s) = None then [(key ident s, s)] else [])"
  proof (cases "materials ctx (key ident s)")
    case None
    from sync_miss [OF i None] assms
    have r: "Some h = (case get_material_output_node m of
                    None \<Rightarrow> None
                  | Some out \<Rightarrow> fst (final_export ctx out (key ident s) s))"
      and m: "materials ctx1 = (materials ctx)(key ident s \<mapsto> h)"
      and l: "export_log ctx1 = export_log ctx @
                (case get_material_output_node m of
                   None \<Rightarrow> []
                 | Some out \<Rightarrow> [(key ident s, s)])"
      by auto
    from r have "get_material_output_node m \<noteq> None" by (auto split: option.splits)
    with m l None show ?thesis by auto
  next
    case (Some h')
    from sync_hit [OF i Some] assms have "ctx1 = ctx" "h' = h" by simp_all
    with Some show ?thesis by simp
  qed
  with i sync_hit [OF i, of ctx1 s h] show ?thesis by blast
qed

text \<open>
  \<open>Glass\<close> on the empty registry: the first sync compiles, the second returns the
  same handle from the registry, and the trace holds the one export.
\<close>

theorem sync_second_call_is_lookup_witness:
  "sync empty_context glass ''Surface'' None = Inr (Some (Handle 0), glass_context)
   \<and> sync glass_context glass ''Surface'' None = Inr (Some (Handle 0), glass_context)
   \<and> materials empty_context (key (Str ''Glass'') ''Surface'') = None
   \<and> export_log glass_context = export_log empty_context @ [(Str ''Glass'', ''Surface'')]"
proof -
  have h: "sync empty_context glass ''Surface'' None = Inr (Some (Handle 0), glass_context)"
    by (simp add: unfold_model unfold_examples)
  have i: "material_identity glass None = Inr (Str ''Glass'')"
    by (simp add: material_identity_def glass_def)
  show ?thesis
    using h sync_second_call_is_lookup [OF h]
    by (simp add: i key_def empty_context_def glass_context_def)
qed

section \<open>Materials without an output node\<close>

text \<open>
  C6, as stated, fails: \<open>Glass\<close> was compiled and registered, and its output node
  is no longer active. No node of the tree is an active output, and yet the sync
  returns the handle found in the registry, not null.
\<close>

theorem sync_without_output_node_counterexample:
  "get_material_output_node glass_no_output = None
   \<and> sync glass_context glass_no_output ''Surface'' None
       = Inr (Some (Handle 0), glass_context)"
  by (simp add: unfold_model unfold_examples)

text \<open>
  C6, amended. For every material whose node tree is absent or has no node flagged
  as the active output, every sync call on it, for any socket name and any
  consuming object (an object of the scene, a mesh object too, or none), returns
  without raising, returns what the registry holds at the derived key, which is
  null unless the key is registered already, and leaves the context as it was:
  nothing is exported and no cache entry is created.
\<close>

theorem sync_without_output_node:
  assumes "node_tree m = None
           \<or> (\<exists>t. node_tree m = Some t \<and> (\<forall>n\<in>set (nodes t). \<not> is_active_output n))"
    and "is_object obj"
  shows "sync ctx m s obj = Inr (materials ctx (key (Str (name m)) s), ctx)"
proof -
  from assms(1) have out: "get_material_output_node m = None"
    by (rule get_material_output_node_None)
  from assms(2) have i: "material_identity m obj = Inr (Str (name m))"
    by (rule material_identity_object)
  show ?thesis
    using i out by (simp add: sync_def Let_def split: option.split)
qed

text \<open>
  The material without a node tree and \<open>Glass\<close> with its output node not active,
  each synced for a mesh object on the empty registry: null, and the context is
  the empty one still.
\<close>

theorem sync_without_output_node_witness:
  "node_tree bare = None
   \<and> is_object (Some (MeshObject ''A'' [''UVMap'']))
   \<and> sync empty_context bare ''Surface'' (Some (MeshObject ''A'' [''UVMap'']))
       = Inr (None, empty_context)
   \<and> sync empty_context glass_no_output ''Displacement'' (Some (MeshObject ''A'' [''UVMap'']))
       = Inr (None, empty_context)"
proof -
  have h1: "node_tree bare = None
            \<or> (\<exists>t. node_tree bare = Some t \<and> (\<forall>n\<in>set (nodes t). \<not> is_active_output n))"
    by (simp add: bare_def)
  have h2: "node_tree glass_no_output = None
            \<or> (\<exists>t. node_tree glass_no_output = Some t
                  \<and> (\<forall>n\<in>set (nodes t). \<not> is_active_output n))"
    by (simp add: glass_no_output_def glass_bsdf_def)
  have o: "is_object (Some (MeshObject ''A'' [''UVMap'']))"
    by simp
  show ?thesis
    using o sync_without_output_node [OF h1 o, of empty_context "''Surface''"]
      sync_without_output_node [OF h2 o, of empty_context "''Displacement''"]
    by (simp add: bare_def empty_context_def)
qed

section \<open>UV sets in the material identity\<close>

text \<open>
  C4. For a mesh as consuming object and a material with a UV-Map node, sync is to
  derive the identity as the pair of the material name and the UV-set names of the
  object, so that two meshes with different UV sets fill two entries of the
  registry. On the code the identity is never such a pair
  (\<open>material_identity_bare\<close> above). \<open>Wood\<close> contains a UV-Map node; the mesh
  object \<open>A\<close> has the UV set \<open>UVMap\<close>, the mesh object \<open>B\<close> the UV sets \<open>UVMap\<close> and
  \<open>UVMap2\<close>. Neither is an instance of \<^verbatim>\<open>bpy.types.Mesh\<close>, so for both the key is
  the bare name: the sync for \<open>A\<close> compiles and registers under \<open>Wood\<close>, and the
  sync for \<open>B\<close> hits that entry, returns the handle compiled for \<open>A\<close> and compiles
  nothing; the registry holds one entry. The mesh datablock passes the test, and
  then \<^verbatim>\<open>obj.data\<close> raises. The comment on the branch, that only mesh objects have
  UV mapping and the data field, shows that mesh objects were meant to take it.
\<close>

theorem sync_mesh_objects_share_bare_key:
  "material_identity wood (Some (MeshObject ''A'' [''UVMap''])) = Inr (Str ''Wood'')
   \<and> material_identity wood (Some (MeshObject ''B'' [''UVMap'', ''UVMap2''])) = Inr (Str ''Wood'')
   \<and> sync empty_context wood ''Surface'' (Some (MeshObject ''A'' [''UVMap'']))
       = Inr (Some (Handle 0), wood_surface_context)
   \<and> sync wood_surface_context wood ''Surface'' (Some (MeshObject ''B'' [''UVMap'', ''UVMap2'']))
       = Inr (Some (Handle 0), wood_surface_context)
   \<and> materials wood_surface_context (Tuple [Str ''Wood'', Tuple [Str ''UVMap'']]) = None
   \<and> materials wood_surface_context (Tuple [Str ''Wood'', Tuple [Str ''UVMap'', Str ''UVMap2'']])
       = None
   \<and> has_uv_map_node wood = Inr True
   \<and> sync empty_context wood ''Surface'' (Some (MeshData ''A'')) = Inl AttributeError"
  by (simp add: unfold_model unfold_examples)

section \<open>The socket resolver\<close>

text \<open>
  C5, as stated, fails: the active output node of \<open>Glass\<close> has the sockets
  \<open>Surface\<close>, \<open>Volume\<close> and \<open>Displacement\<close>. Asked for the socket \<open>Emission\<close>,
  which does not exist on it, the resolver does not return null: the lookup in the
  collection of inputs raises \<open>KeyError\<close>.
\<close>

theorem get_material_input_node_counterexample:
  "get_material_output_node glass = Some glass_output
   \<and> map_of (inputs glass_output) ''Emission'' = None
   \<and> get_material_input_node glass ''Emission'' = Inl KeyError"
  by (simp add: get_material_input_node_def get_material_output_node_def
      glass_def glass_bsdf_def glass_output_def)

text \<open>
  C5, amended. For every material and socket name, \<open>get_material_input_node\<close>
  returns null, and does not raise, when the material has no node tree, when no
  node of the tree is flagged as the active output, when the named socket of the
  output node is unlinked, or when its single link is marked invalid; an invalid
  link gives the same result as no link. When the named socket does not exist on
  the output node, it raises \<open>KeyError\<close>.
\<close>

theorem get_material_input_node_cases:
  "(node_tree m = None \<longrightarrow> get_material_input_node m s = Inr None)
   \<and> (node_tree m = Some t \<and> (\<forall>n\<in>set (nodes t). \<not> is_active_output n)
        \<longrightarrow> get_material_input_node m s = Inr None)
   \<and> (get_material_output_node m = Some out \<and> map_of (inputs out) s = Some sock
        \<and> \<not> is_linked sock \<longrightarrow> get_material_input_node m s = Inr None)
   \<and> (get_material_output_node m = Some out \<and> map_of (inputs out) s = Some sock
        \<and> is_linked sock \<and> links sock = [l] \<and> \<not> is_valid l
        \<longrightarrow> get_material_input_node m s = Inr None)
   \<and> (get_material_output_node m = Some out \<and> map_of (inputs out) s = None
        \<longrightarrow> get_material_input_node m s = Inl KeyError)"
proof -
  have "get_material_output_node m = None"
    if "node_tree m = Some t \<and> (\<forall>n\<in>set (nodes t). \<not> is_active_output n)"
    using that get_material_output_node_None [of m] by blast
  then show ?thesis
    by (simp add: get_material_input_node_def get_material_output_node_def)
qed

text \<open>
  The five cases on the example materials: no node tree; \<open>Glass\<close> with its output
  not active; \<open>Glass\<close> and its unlinked socket \<open>Displacement\<close>; \<open>Glass\<close> with an
  invalid link into \<open>Surface\<close>; \<open>Glass\<close> and the missing socket \<open>Emission\<close>.
\<close>

theorem get_material_input_node_cases_witness:
  "node_tree bare = None
   \<and> get_material_input_node bare ''Surface'' = Inr None
   \<and> get_material_input_node glass_no_output ''Surface'' = Inr None
   \<and> get_material_output_node glass = Some glass_output
   \<and> map_of (inputs glass_output) ''Displacement'' = Some (Socket False [])
   \<and> get_material_input_node glass ''Displacement'' = Inr None
   \<and> get_material_output_node glass_invalid_link = Some invalid_output
   \<and> map_of (inputs invalid_output) ''Surface'' = Some (Socket True [Link False glass_bsdf])
   \<and> get_material_input_node glass_invalid_link ''Surface'' = Inr None
   \<and> map_of (inputs glass_output) ''Emission'' = None
   \<and> get_material_input_node glass ''Emission'' = Inl KeyError"
proof -
  have t: "node_tree bare = None"
    by (simp add: bare_def)
  have n: "node_tree glass_no_output = Some \<lparr>nodes =
     [glass_bsdf,
      Node ''ShaderNodeOutputMaterial'' False
        [(''Surface'', Socket True [Link True glass_bsdf]),
         (''Volume'', Socket False []),
         (''Displacement'', Socket False [])]]\<rparr>"
    by (simp add: glass_no_output_def)
  have o1: "get_material_output_node glass = Some glass_output"
    by (simp add: get_material_output_node_def glass_def glass_bsdf_def glass_output_def)
  have o2: "get_material_output_node glass_invalid_link = Some invalid_output"
    by (simp add: get_material_output_node_def glass_invalid_link_def glass_bsdf_def
        invalid_output_def)
  have d: "map_of (inputs glass_output) ''Displacement'' = Some (Socket False [])"
    and e: "map_of (inputs glass_output) ''Emission'' = None"
    by (simp_all add: glass_output_def)
  have i: "map_of (inputs invalid_output) ''Surface''
           = Some (Socket True [Link False glass_bsdf])"
    by (simp add: invalid_output_def)
  show ?thesis
    using t n o1 o2 d e i
      get_material_input_node_cases [where m = bare and s = "''Surface''"]
      get_material_input_node_cases [where m = glass_no_output and s = "''Surface''"
        and t = "\<lparr>nodes =
          [glass_bsdf,
           Node ''ShaderNodeOutputMaterial'' False
             [(''Surface'', Socket True [Link True glass_bsdf]),
              (''Volume'', Socket False []),
              (''Displacement'', Socket False [])]]\<rparr>"]
      get_material_input_node_cases [where m = glass and s = "''Displacement''"
        and out = glass_output and sock = "Socket False []"]
      get_material_input_node_cases [where m = glass_invalid_link and s = "''Surface''"
        and out = invalid_output and sock = "Socket True [Link False glass_bsdf]"
        and l = "Link False glass_bsdf"]
      get_material_input_node_cases [where m = glass and s = "''Emission''"
        and out = glass_output]
    by (simp add: glass_bsdf_def)
qed

section \<open>sync\_update\<close>

lemma sync_update_Inl:
  "sync_update ctx m obj = Inl e \<longleftrightarrow> material_identity m obj = Inl e"
proof (cases "material_identity m obj")
  case (Inl e')
  then show ?thesis by (simp add: sync_update_def)
next
  case (Inr ident)
  have a: "sync c m s obj \<noteq> Inl e" for c s
    using Inr by (simp add: sync_Inl)
  have b: "sync c m s None \<noteq> Inl e" for c s
    by (simp add: sync_Inl material_identity_def)
  show ?thesis
    using Inr a b
    by (auto simp add: sync_update_def Let_def split: sum.splits prod.splits)
qed

lemma sync_update_result:
  "sync_update ctx m obj = Inr (b, ctx') \<Longrightarrow> b"
  by (auto simp add: sync_update_def Let_def split: sum.splits prod.splits)

subsection \<open>Both channels are compiled again\<close>

text \<open>
  With the bare name as identity, the key that \<open>sync_update\<close> removes for
  \<open>Displacement\<close> is the key that its second sync call, the one without \<open>obj\<close>,
  derives. Both sync calls are misses, because their keys have just been removed:
  each compiles, and nothing else in the registry changes.
\<close>

lemma sync_update_effect:
  assumes i: "material_identity m obj = Inr (Str (name m))"
  shows "\<exists>c. sync_update ctx m obj = Inr (True, c)
           \<and> export_log c = export_log ctx @
               (case get_material_output_node m of
                  None \<Rightarrow> []
                | Some out \<Rightarrow>
                    [(key (Str (name m)) ''Surface'', ''Surface''),
                     (key (Str (name m)) ''Displacement'', ''Displacement'')])
           \<and> (\<forall>k. k \<noteq> key (Str (name m)) ''Surface'' \<and> k \<noteq> key (Str (name m)) ''Displacement''
                  \<longrightarrow> materials c k = materials ctx k)"
proof -
  let ?S = "key (Str (name m)) ''Surface''" and ?D = "key (Str (name m)) ''Displacement''"
  define ctx1 where "ctx1 = (if materials ctx ?S \<noteq> None then remove_material ctx ?S else ctx)"
  have i0: "material_identity m None = Inr (Str (name m))"
    by (simp add: material_identity_def)
  have m1: "materials ctx1 ?S = None" and l1: "export_log ctx1 = export_log ctx"
    and f1: "\<And>k. k \<noteq> ?S \<Longrightarrow> materials ctx1 k = materials ctx k"
    by (auto simp add: ctx1_def remove_material_def)
  from sync_miss [OF i m1] obtain r1 ctx2 where
    s1: "sync ctx1 m ''Surface'' obj = Inr (r1, ctx2)"
    and reg2: "materials ctx2 = (materials ctx1)(?S := r1)"
    and log2: "export_log ctx2 = export_log ctx1 @
                (case get_material_output_node m of
                   None \<Rightarrow> []
                 | Some out \<Rightarrow> [(?S, ''Surface'')])"
    by blast
  define ctx3 where "ctx3 = (if materials ctx2 ?D \<noteq> None then remove_material ctx2 ?D else ctx2)"
  have m3: "materials ctx3 ?D = None" and l3: "export_log ctx3 = export_log ctx2"
    and f3: "\<And>k. k \<noteq> ?D \<Longrightarrow> materials ctx3 k = materials ctx2 k"
    by (auto simp add: ctx3_def remove_material_def)
  from sync_miss [OF i0 m3] obtain r2 c where
    s2: "sync ctx3 m ''Displacement'' None = Inr (r2, c)"
    and reg: "materials c = (materials ctx3)(?D := r2)"
    and log: "export_log c = export_log ctx3 @
                (case get_material_output_node m of
                   None \<Rightarrow> []
                 | Some out \<Rightarrow> [(?D, ''Displacement'')])"
    by blast
  have kk: "key ?S ''Displacement'' = ?D"
    by (simp add: key_def)
  have u: "sync_update ctx m obj = Inr (True, c)"
    using i s1 s2 unfolding ctx1_def ctx3_def
    by (simp add: sync_update_def Let_def kk)
  have lg: "export_log c = export_log ctx @
               (case get_material_output_node m of
                  None \<Rightarrow> []
                | Some out \<Rightarrow> [(?S, ''Surface''), (?D, ''Displacement'')])"
    using log l3 log2 l1 by (simp split: option.split)
  have fr: "materials c k = materials ctx k" if "k \<noteq> ?S \<and> k \<noteq> ?D" for k
    using that reg f3 [of k] reg2 f1 [of k] by simp
  from u lg fr show ?thesis by blast
qed

subsection \<open>Fresh handles\<close>

text \<open>
  A sync call never lowers the allocation counter; a handle it returns on a miss is
  the newly allocated one; and it keeps the registry within the allocated handles,
  as the empty context is.
\<close>

lemma empty_context_allocated: "handles_allocated empty_context"
  by (simp add: handles_allocated_def empty_context_def)

lemma sync_step:
  assumes i: "material_identity m obj = Inr ident" and s: "sync ctx m s obj = Inr (r, c)"
  shows "materials c = (materials ctx)(key ident s := r)"
    and "next_handle ctx \<le> next_handle c"
    and "materials ctx (key ident s) = None \<Longrightarrow> r = Some h
         \<Longrightarrow> h = Handle (next_handle ctx) \<and> next_handle ctx < next_handle c"
proof -
  show "materials c = (materials ctx)(key ident s := r)"
    using sync_registry [OF s i] .
  show "next_handle ctx \<le> next_handle c"
    using i s
    by (auto simp add: sync_def final_export_def set_material_node_as_material_def Let_def
        split: option.splits prod.splits)
  show "h = Handle (next_handle ctx) \<and> next_handle ctx < next_handle c"
    if "materials ctx (key ident s) = None" and "r = Some h"
    using i s that
    by (auto simp add: sync_def final_export_def set_material_node_as_material_def Let_def
        split: option.splits prod.splits)
qed

lemma sync_allocated:
  assumes "handles_allocated ctx" and "sync ctx m s obj = Inr (r, c)"
  shows "handles_allocated c"
proof -
  from assms(2) obtain ident where i: "material_identity m obj = Inr ident"
    using sync_Inr_identity by blast
  note st = sync_step [OF i assms(2)]
  show ?thesis
  proof (cases "materials ctx (key ident s)")
    case None
    show ?thesis
      unfolding handles_allocated_def
    proof (intro allI impI)
      fix k n assume k: "materials c k = Some (Handle n)"
      show "n < next_handle c"
      proof (cases "k = key ident s")
        case True
        with k st(1) have "r = Some (Handle n)" by simp
        with st(3) [OF None this] show ?thesis by simp
      next
        case False
        with k st(1) have "materials ctx k = Some (Handle n)" by simp
        with assms(1) have "n < next_handle ctx" by (simp add: handles_allocated_def)
        with st(2) show ?thesis by simp
      qed
    qed
  next
    case (Some h)
    from sync_hit [OF i Some] assms(2) have "c = ctx" by simp
    with assms(1) show ?thesis by simp
  qed
qed

lemma remove_material_allocated:
  "handles_allocated ctx \<Longrightarrow> handles_allocated (remove_material ctx k)"
  by (simp add: handles_allocated_def remove_material_def)

text \<open>
  Whatever the registry holds after \<open>sync_update\<close> at the \<open>Surface\<close> key and at the
  \<open>Displacement\<close> key was allocated during the update, and a following sync of
  either channel returns no handle that was in the registry before the update.
\<close>

lemma sync_update_bare_identity:
  assumes i: "material_identity m obj = Inr (Str (name m))"
    and u: "sync_update ctx m obj = Inr (b, c)"
  shows "next_handle ctx \<le> next_handle c"
    and "\<forall>s\<in>{''Surface'', ''Displacement''}. \<forall>n.
           materials c (key (Str (name m)) s) = Some (Handle n) \<longrightarrow> next_handle ctx \<le> n"
    and "handles_allocated ctx \<Longrightarrow> handles_allocated c"
proof -
  let ?S = "Str (name m)" and ?D = "Tuple [Str (name m), Str ''Displacement'']"
  define ctx1 where "ctx1 = (if materials ctx ?S \<noteq> None then remove_material ctx ?S else ctx)"
  have i0: "material_identity m None = Inr ?S" by (simp add: material_identity_def)
  from u i obtain r1 ctx2 where s1: "sync ctx1 m ''Surface'' obj = Inr (r1, ctx2)"
    by (auto simp add: sync_update_def key_def ctx1_def Let_def split: sum.splits prod.splits)
  define ctx3 where "ctx3 = (if materials ctx2 ?D \<noteq> None then remove_material ctx2 ?D else ctx2)"
  from u i s1 obtain r2 where s2: "sync ctx3 m ''Displacement'' None = Inr (r2, c)"
    by (auto simp add: sync_update_def key_def ctx1_def ctx3_def Let_def
        split: sum.splits prod.splits)
  have n1: "next_handle ctx1 = next_handle ctx" and m1: "materials ctx1 ?S = None"
    by (auto simp add: ctx1_def remove_material_def)
  note st1 = sync_step [OF i s1, unfolded key_def, simplified]
  have n3: "next_handle ctx3 = next_handle ctx2" and m3: "materials ctx3 ?D = None"
    and m3': "materials ctx3 ?S = materials ctx2 ?S"
    by (auto simp add: ctx3_def remove_material_def)
  note st2 = sync_step [OF i0 s2, unfolded key_def, simplified]
  show "next_handle ctx \<le> next_handle c"
    using st1(2) st2(2) n1 n3 by simp
  have S: "next_handle ctx \<le> n" if "materials c ?S = Some (Handle n)" for n
  proof -
    from that st2(1) m3' st1(1) have "r1 = Some (Handle n)" by simp
    with st1(3) [OF m1] n1 show ?thesis by simp
  qed
  have D: "next_handle ctx \<le> n" if "materials c ?D = Some (Handle n)" for n
  proof -
    from that st2(1) have "r2 = Some (Handle n)" by simp
    with st2(3) [OF m3] n3 st1(2) n1 show ?thesis by simp
  qed
  show "\<forall>s\<in>{''Surface'', ''Displacement''}. \<forall>n.
           materials c (key (Str (name m)) s) = Some (Handle n) \<longrightarrow> next_handle ctx \<le> n"
    using S D by (simp add: key_def)
  show "handles_allocated c" if inv: "handles_allocated ctx"
  proof -
    have "handles_allocated ctx1"
      using inv by (simp add: ctx1_def remove_material_allocated)
    then have "handles_allocated ctx2" using s1 by (rule sync_allocated)
    then have "handles_allocated ctx3"
      by (simp add: ctx3_def remove_material_allocated)
    then show ?thesis using s2 by (rule sync_allocated)
  qed
qed

lemma sync_update_invalidates:
  assumes inv: "handles_allocated ctx"
    and i: "material_identity m obj = Inr (Str (name m))"
    and u: "sync_update ctx m obj = Inr (b, c)"
    and s: "s = ''Surface'' \<or> s = ''Displacement''"
    and old: "materials ctx k = Some h_old"
    and i': "material_identity m obj' = Inr (Str (name m))"
    and after: "sync c m s obj' = Inr (r, c')"
  shows "r \<noteq> Some h_old"
proof
  assume r: "r = Some h_old"
  obtain n where n: "h_old = Handle n" by (cases h_old)
  from inv old n have lt: "n < next_handle ctx" by (simp add: handles_allocated_def)
  note upd = sync_update_bare_identity [OF i u]
  have "next_handle ctx \<le> n"
  proof (cases "materials c (key (Str (name m)) s)")
    case None
    from sync_step(3) [OF i' after None r] n upd(1) show ?thesis by simp
  next
    case (Some h)
    from sync_hit [OF i' Some] after r n
    have "materials c (key (Str (name m)) s) = Some (Handle n)"
      using Some by simp
    with upd(2) s show ?thesis by auto
  qed
  with lt show False by simp
qed

text \<open>
  C8. For every material and every consuming object (an object of the scene, a
  mesh object too, or none) \<open>sync_update\<close> returns \<open>True\<close>, whatever the two channel
  compiles return: the value says nothing about either channel.
\<close>

theorem sync_update_always_True:
  assumes "is_object obj"
  shows "\<exists>ctx'. sync_update ctx m obj = Inr (True, ctx')"
  using sync_update_effect [OF material_identity_object [OF assms], of ctx] by blast

text \<open>
  The material without a node tree, updated for a mesh object: both channels
  compile to null, the context stays the empty one, and the result is \<open>True\<close>.
  \<open>Glass\<close>, updated with no object: the surface compiles, the displacement
  compiles to null, and the result is \<open>True\<close>.
\<close>

theorem sync_update_always_True_witness:
  "is_object (Some (MeshObject ''Cube'' [''UVMap'']))
   \<and> sync_update empty_context bare (Some (MeshObject ''Cube'' [''UVMap'']))
       = Inr (True, empty_context)
   \<and> is_object None
   \<and> (\<exists>ctx'. sync_update empty_context glass None = Inr (True, ctx')
         \<and> materials ctx' (Str ''Glass'') = Some (Handle 0)
         \<and> materials ctx' (Tuple [Str ''Glass'', Str ''Displacement'']) = None)"
proof -
  have o1: "is_object (Some (MeshObject ''Cube'' [''UVMap'']))" and o2: "is_object None"
    by simp_all
  have e1: "sync_update empty_context bare (Some (MeshObject ''Cube'' [''UVMap'']))
            = Inr (True, empty_context)"
    by (simp add: unfold_model bare_def empty_context_def)
  have e2: "\<exists>ctx'. sync_update empty_context glass None = Inr (True, ctx')
         \<and> materials ctx' (Str ''Glass'') = Some (Handle 0)
         \<and> materials ctx' (Tuple [Str ''Glass'', Str ''Displacement'']) = None"
    by (simp add: unfold_model glass_def glass_bsdf_def glass_output_def empty_context_def)
  from sync_update_always_True [OF o1, of empty_context bare]
    sync_update_always_True [OF o2, of empty_context glass] o1 o2 e1 e2
  show ?thesis by (intro conjI)
qed

text \<open>
  C2. For every material and every consuming object (an object of the scene, a
  mesh object too, or none), \<open>sync_update\<close> returns, and it has removed whatever
  the registry held at the \<open>Surface\<close> key of the pair and compiled that channel
  again, and then removed whatever the registry held at the \<open>Displacement\<close> key and
  compiled that channel again. That is: when the material has an output node, the
  trace of exports grows by the export for \<open>Surface\<close> followed by the export for
  \<open>Displacement\<close>, whatever the registry held (with no output node both compiles
  give null without an export); what the registry holds afterwards at either key
  is nothing or a handle allocated during the update; each channel is treated the
  same whether or not the other has an entry, and no other key changes. After the
  update, on a registry that held allocated handles only, a sync of either
  channel never returns a handle that the registry held before the update.
\<close>

theorem sync_update_recompiles_both_channels:
  assumes "is_object obj"
  shows "\<exists>ctx'. sync_update ctx m obj = Inr (True, ctx')
     \<and> material_identity m obj = Inr (Str (name m))
     \<and> export_log ctx' = export_log ctx @
         (case get_material_output_node m of
            None \<Rightarrow> []
          | Some out \<Rightarrow>
              [(key (Str (name m)) ''Surface'', ''Surface''),
               (key (Str (name m)) ''Displacement'', ''Displacement'')])
     \<and> (\<forall>k. k \<noteq> key (Str (name m)) ''Surface'' \<and> k \<noteq> key (Str (name m)) ''Displacement''
            \<longrightarrow> materials ctx' k = materials ctx k)
     \<and> (\<forall>s\<in>{''Surface'', ''Displacement''}. \<forall>n.
           materials ctx' (key (Str (name m)) s) = Some (Handle n) \<longrightarrow> next_handle ctx \<le> n)
     \<and> (handles_allocated ctx \<longrightarrow>
          (\<forall>s obj' r c' k h_old.
              (s = ''Surface'' \<or> s = ''Displacement'') \<and> is_object obj'
              \<and> sync ctx' m s obj' = Inr (r, c') \<and> materials ctx k = Some h_old
              \<longrightarrow> r \<noteq> Some h_old))"
proof -
  have i: "material_identity m obj = Inr (Str (name m))"
    using assms by (rule material_identity_object)
  from sync_update_effect [OF i, of ctx] obtain c where
    u: "sync_update ctx m obj = Inr (True, c)"
    and lg: "export_log c = export_log ctx @
         (case get_material_output_node m of
            None \<Rightarrow> []
          | Some out \<Rightarrow>
              [(key (Str (name m)) ''Surface'', ''Surface''),
               (key (Str (name m)) ''Displacement'', ''Displacement'')])"
    and fr: "\<forall>k. k \<noteq> key (Str (name m)) ''Surface'' \<and> k \<noteq> key (Str (name m)) ''Displacement''
            \<longrightarrow> materials c k = materials ctx k"
    by blast
  have fresh: "\<forall>s\<in>{''Surface'', ''Displacement''}. \<forall>n.
           materials c (key (Str (name m)) s) = Some (Handle n) \<longrightarrow> next_handle ctx \<le> n"
    using sync_update_bare_identity(2) [OF i u] .
  have later: "r \<noteq> Some h_old"
    if "handles_allocated ctx" and "s = ''Surface'' \<or> s = ''Displacement''"
      and "is_object obj'" and "sync c m s obj' = Inr (r, c')"
      and "materials ctx k = Some h_old"
    for s obj' r c' k h_old
    using sync_update_invalidates [OF that(1) i u that(2) that(5)
        material_identity_object [OF that(3)] that(4)] .
  have "handles_allocated ctx \<longrightarrow>
          (\<forall>s obj' r c' k h_old.
              (s = ''Surface'' \<or> s = ''Displacement'') \<and> is_object obj'
              \<and> sync c m s obj' = Inr (r, c') \<and> materials ctx k = Some h_old
              \<longrightarrow> r \<noteq> Some h_old)"
    using later by blast
  with u i lg fr fresh show ?thesis
    by (intro exI [of _ c]) (intro conjI)
qed

text \<open>
  \<open>Wood\<close> has both channels linked, and the registry holds a handle for each.
  \<open>sync_update\<close> for a mesh object exports both channels and leaves two new
  handles; the syncs that follow return the new ones.
\<close>

theorem sync_update_recompiles_both_channels_witness:
  "is_object (Some (MeshObject ''A'' [''UVMap'']))
   \<and> materials wood_context (Str ''Wood'') = Some (Handle 0)
   \<and> materials wood_context (Tuple [Str ''Wood'', Str ''Displacement'']) = Some (Handle 1)
   \<and> (\<exists>ctx'. sync_update wood_context wood (Some (MeshObject ''A'' [''UVMap'']))
               = Inr (True, ctx')
         \<and> export_log ctx' = [(Str ''Wood'', ''Surface''),
                               (Tuple [Str ''Wood'', Str ''Displacement''], ''Displacement'')]
         \<and> materials ctx' (Str ''Wood'') = Some (Handle 2)
         \<and> materials ctx' (Tuple [Str ''Wood'', Str ''Displacement'']) = Some (Handle 3)
         \<and> sync ctx' wood ''Surface'' (Some (MeshObject ''A'' [''UVMap'']))
             = Inr (Some (Handle 2), ctx')
         \<and> sync ctx' wood ''Displacement'' (Some (MeshObject ''A'' [''UVMap'']))
             = Inr (Some (Handle 3), ctx'))"
proof -
  have o: "is_object (Some (MeshObject ''A'' [''UVMap'']))"
    by simp
  have m: "materials wood_context (Str ''Wood'') = Some (Handle 0)"
    "materials wood_context (Tuple [Str ''Wood'', Str ''Displacement'']) = Some (Handle 1)"
    by (simp_all add: wood_context_def)
  have e: "\<exists>ctx'. sync_update wood_context wood (Some (MeshObject ''A'' [''UVMap'']))
               = Inr (True, ctx')
         \<and> export_log ctx' = [(Str ''Wood'', ''Surface''),
                               (Tuple [Str ''Wood'', Str ''Displacement''], ''Displacement'')]
         \<and> materials ctx' (Str ''Wood'') = Some (Handle 2)
         \<and> materials ctx' (Tuple [Str ''Wood'', Str ''Displacement'']) = Some (Handle 3)
         \<and> sync ctx' wood ''Surface'' (Some (MeshObject ''A'' [''UVMap'']))
             = Inr (Some (Handle 2), ctx')
         \<and> sync ctx' wood ''Displacement'' (Some (MeshObject ''A'' [''UVMap'']))
             = Inr (Some (Handle 3), ctx')"
    by (simp add: unfold_model wood_def wood_tree_def wood_context_def)
  have inv: "handles_allocated wood_context"
    by (simp add: handles_allocated_def wood_context_def)
  from sync_update_recompiles_both_channels [OF o, of wood_context wood] inv
  have "\<exists>ctx'. sync_update wood_context wood (Some (MeshObject ''A'' [''UVMap'']))
               = Inr (True, ctx')
          \<and> (\<forall>s obj' r c' k h_old.
              (s = ''Surface'' \<or> s = ''Displacement'') \<and> is_object obj'
              \<and> sync ctx' wood s obj' = Inr (r, c') \<and> materials wood_context k = Some h_old
              \<longrightarrow> r \<noteq> Some h_old)"
    by blast
  with o m e show ?thesis by (intro conjI)
qed

end
